theory Spec2Isabelle
  imports Main
begin

section \<open>Text\<close>

text \<open>
  Python text is held as the list of the bytes of its UTF-8 encoding, so that the
  pictographs of the report are written as byte sequences. Concatenation, repetition
  and joining act on these sequences as they act on Python's strings.
\<close>

type_synonym pystr = string
type_synonym bytes = string

definition newline :: char where
  "newline = CHR 0x0A"

definition blank :: char where
  "blank = CHR 0x20"

text \<open>Python's \<^verbatim>\<open>sep.join(xs)\<close>.\<close>

fun join :: "pystr \<Rightarrow> pystr list \<Rightarrow> pystr" where
  "join sep [] = []"
| "join sep [x] = x"
| "join sep (x # y # ys) = x @ sep @ join sep (y # ys)"

text \<open>Python's \<^verbatim>\<open>str(n)\<close> for a line number, in decimal.\<close>

definition digit :: "nat \<Rightarrow> char" where
  "digit d = char_of (48 + d)"

fun str_nat :: "nat \<Rightarrow> pystr" where
  "str_nat n = (if n < 10 then [digit n] else str_nat (n div 10) @ [digit (n mod 10)])"

declare str_nat.simps [simp del]

text \<open>Python's \<^verbatim>\<open>x or d\<close> where \<open>x\<close> is a string or \<^verbatim>\<open>None\<close>.\<close>

fun or_else :: "pystr option \<Rightarrow> pystr \<Rightarrow> pystr" where
  "or_else None d = d"
| "or_else (Some s) d = (if s = [] then d else s)"

section \<open>Syntax trees\<close>

text \<open>
  The nodes of Python's \<^verbatim>\<open>ast\<close> module, with the fields that the visitor reads.
  Every node kind that is not listed is \<open>Other\<close>, carrying its child nodes in field
  order: the visitor has no handler for it, and the child nodes are all that
  \<^verbatim>\<open>NodeVisitor.generic_visit\<close> looks at. The keywords of a call are kept as
  the list of their value expressions, the only child of a \<^verbatim>\<open>keyword\<close> node.
  The expression context of a name or attribute is a node without fields and is left out.
  A class has its name, line and body, a function its name, line, the names of
  \<^verbatim>\<open>args.args\<close> and its body: the handlers read no other field of them.
  An augmented assignment \<^verbatim>\<open>target op= value\<close> has its target and value (the
  operator is a node without fields), an annotated assignment
  \<^verbatim>\<open>target: annotation = value\<close> its target, annotation and optional value.
\<close>

datatype pyconst = StrC pystr | IntC int | OtherC

datatype node =
    Import "pystr list"
  | ImportFrom "pystr option" "pystr list"
  | ClassDef pystr nat "node list"
  | FunctionDef pystr nat "pystr list" "node list"
  | Assign "node list" node
  | AugAssign node node
  | AnnAssign node node "node option"
  | For node node "node list" "node list"
  | Call node "node list" "node list"
  | Return "node option"
  | While node "node list" "node list"
  | Expr node
  | Constant pyconst
  | Name pystr
  | Attribute node pystr
  | Other "node list"

datatype module = Module "node list" "node list"

section \<open>The hosting library\<close>

text \<open>
  The program calls into Python's library: \<^verbatim>\<open>ast.unparse\<close> (absent before
  Python 3.9, which the program tests with \<^verbatim>\<open>hasattr\<close>), the cleaning of a
  docstring inside \<^verbatim>\<open>ast.get_docstring\<close>, \<^verbatim>\<open>bytes.decode\<close>,
  the file system and \<^verbatim>\<open>ast.parse\<close>. They are parameters of the model; a call
  that raises returns the exception as a value.
\<close>

datatype error = OSError pystr | UnicodeDecodeError pystr | SyntaxError pystr

fun str_error :: "error \<Rightarrow> pystr" where
  "str_error (OSError d) = d"
| "str_error (UnicodeDecodeError d) = d"
| "str_error (SyntaxError d) = d"

record env =
  ast_unparse :: "(node \<Rightarrow> pystr) option"
  cleandoc :: "pystr \<Rightarrow> pystr"
  decode_utf8 :: "bytes \<Rightarrow> error + pystr"
  file_bytes :: "pystr \<Rightarrow> error + bytes"
  ast_parse :: "pystr \<Rightarrow> error + module"

text \<open>
  \<^verbatim>\<open>open(path, "r", encoding="utf-8").read()\<close>: the bytes of the file, decoded,
  with every line ending turned into a line feed, as Python's text mode does when
  \<^verbatim>\<open>newline\<close> is not given. Carriage return and line feed are single bytes that
  occur in UTF-8 only as themselves.
\<close>

fun universal_newlines :: "pystr \<Rightarrow> pystr" where
  "universal_newlines [] = []"
| "universal_newlines [c] = [if c = CHR 0x0D then CHR 0x0A else c]"
| "universal_newlines (c # d # cs) =
     (if c = CHR 0x0D
      then (if d = CHR 0x0A then CHR 0x0A # universal_newlines cs
            else CHR 0x0A # universal_newlines (d # cs))
      else c # universal_newlines (d # cs))"

definition open_read :: "env \<Rightarrow> pystr \<Rightarrow> error + pystr" where
  "open_read env path =
     (case file_bytes env path of
        Inl e \<Rightarrow> Inl e
      | Inr b \<Rightarrow>
          (case decode_utf8 env b of
             Inl e \<Rightarrow> Inl e
           | Inr s \<Rightarrow> Inr (universal_newlines s)))"

text \<open>\<^verbatim>\<open>ast.unparse(n) if hasattr(ast, "unparse") else "?"\<close>\<close>

definition unparse :: "env \<Rightarrow> node \<Rightarrow> pystr" where
  "unparse env n = (case ast_unparse env of Some u \<Rightarrow> u n | None \<Rightarrow> ''?'')"

text \<open>
  \<^verbatim>\<open>ast.get_docstring(node)\<close>: the text of the first statement of the body when
  that is an expression statement holding a string constant, cleaned; \<^verbatim>\<open>None\<close>
  otherwise.
\<close>

fun leading_literal :: "node list \<Rightarrow> pystr option" where
  "leading_literal (Expr (Constant (StrC s)) # rest) = Some s"
| "leading_literal body = None"

definition get_docstring :: "env \<Rightarrow> node list \<Rightarrow> pystr option" where
  "get_docstring env body = map_option (cleandoc env) (leading_literal body)"

section \<open>The visitor\<close>

record visitor =
  docs :: "pystr list"
  indent_level :: int

definition CodeDocGenerator :: visitor where
  "CodeDocGenerator = \<lparr>docs = [], indent_level = 0\<rparr>"

text \<open>\<^verbatim>\<open>"  " * self.indent_level\<close>; a negative count gives the empty string.\<close>

definition indent :: "visitor \<Rightarrow> pystr" where
  "indent self = concat (replicate (nat (indent_level self)) ''  '')"

definition append_doc :: "pystr \<Rightarrow> visitor \<Rightarrow> visitor" where
  "append_doc line self = self\<lparr>docs := docs self @ [line]\<rparr>"

subsection \<open>The fixed parts of the report\<close>

definition title_line :: pystr where
  "title_line = ''# '' @ [CHR 0xF0, CHR 0x9F, CHR 0x93, CHR 0x98]
     @ '' Code Analysis and Auto Documentation'' @ [newline]"

definition import_tag :: pystr where
  "import_tag = ''- '' @ [CHR 0xF0, CHR 0x9F, CHR 0x93, CHR 0xA6] @ '' ''"

definition class_tag :: pystr where
  "class_tag = ''## '' @ [CHR 0xF0, CHR 0x9F, CHR 0xA7, CHR 0xB1] @ '' Class: `''"

definition docstring_tag :: pystr where
  "docstring_tag = ''- '' @ [CHR 0xF0, CHR 0x9F, CHR 0x93, CHR 0x84] @ '' Docstring: ''"

definition function_tag :: pystr where
  "function_tag = ''### '' @ [CHR 0xF0, CHR 0x9F, CHR 0x94, CHR 0xA7] @ '' Function: `''"

definition arguments_tag :: pystr where
  "arguments_tag = ''- '' @ [CHR 0xF0, CHR 0x9F, CHR 0xA7, CHR 0xA9] @ '' Arguments: ''"

definition assignment_tag :: pystr where
  "assignment_tag = ''- '' @ [CHR 0xF0, CHR 0x9F, CHR 0x93, CHR 0x9D] @ '' Assignment: `''"

definition for_tag :: pystr where
  "for_tag = ''- '' @ [CHR 0xF0, CHR 0x9F, CHR 0x94, CHR 0x81] @ '' For loop: `for ''"

definition call_tag :: pystr where
  "call_tag = ''- '' @ [CHR 0xF0, CHR 0x9F, CHR 0x93, CHR 0x9E] @ '' Function call: `''"

definition return_tag :: pystr where
  "return_tag = ''- '' @ [CHR 0xF0, CHR 0x9F, CHR 0x94, CHR 0x99] @ '' Return statement: `''"

definition no_class_docstring :: pystr where
  "no_class_docstring = ''No class docstring found.''"

definition no_function_docstring :: pystr where
  "no_function_docstring = ''No function docstring found.''"

subsection \<open>The lines of the handlers\<close>

definition import_line :: "pystr list \<Rightarrow> pystr" where
  "import_line names = import_tag @ ''Import: `'' @ join '', '' names @ ''`''"

definition import_from_line :: "pystr option \<Rightarrow> pystr list \<Rightarrow> pystr" where
  "import_from_line module names =
     import_tag @ ''From `'' @ or_else module [] @ ''` import `'' @ join '', '' names @ ''`''"

definition class_line :: "pystr \<Rightarrow> pystr \<Rightarrow> nat \<Rightarrow> pystr" where
  "class_line prefix name lineno =
     prefix @ class_tag @ name @ ''` (Line '' @ str_nat lineno @ '')''"

definition docstring_line :: "pystr \<Rightarrow> pystr \<Rightarrow> pystr" where
  "docstring_line prefix docstring = prefix @ docstring_tag @ docstring"

definition function_line :: "pystr \<Rightarrow> pystr \<Rightarrow> nat \<Rightarrow> pystr" where
  "function_line prefix name lineno =
     prefix @ function_tag @ name @ ''` (Line '' @ str_nat lineno @ '')''"

definition arguments_line :: "pystr \<Rightarrow> pystr list \<Rightarrow> pystr" where
  "arguments_line prefix args =
     prefix @ arguments_tag @ (if args \<noteq> [] then join '', '' args else ''None'')"

definition assignment_line :: "env \<Rightarrow> pystr \<Rightarrow> node list \<Rightarrow> node \<Rightarrow> pystr" where
  "assignment_line env prefix targets v =
     prefix @ assignment_tag @ join '', '' (map (unparse env) targets) @ '' = ''
       @ unparse env v @ ''`''"

definition for_line :: "env \<Rightarrow> pystr \<Rightarrow> node \<Rightarrow> node \<Rightarrow> pystr" where
  "for_line env prefix target iter =
     prefix @ for_tag @ unparse env target @ '' in '' @ unparse env iter @ ''`''"

fun func_name :: "env \<Rightarrow> node \<Rightarrow> pystr" where
  "func_name env (Attribute v attr) = unparse env v @ ''.'' @ attr"
| "func_name env (Name ident) = ident"
| "func_name env func = []"

definition call_line :: "env \<Rightarrow> pystr \<Rightarrow> node \<Rightarrow> pystr" where
  "call_line env prefix func = prefix @ call_tag @ func_name env func @ ''`''"

text \<open>
  \<^verbatim>\<open>ast.unparse(node.value) if (node.value and hasattr(ast, "unparse")) else "?"\<close>
\<close>

definition return_line :: "env \<Rightarrow> pystr \<Rightarrow> node option \<Rightarrow> pystr" where
  "return_line env prefix v =
     prefix @ return_tag @ (case v of Some e \<Rightarrow> unparse env e | None \<Rightarrow> ''?'') @ ''`''"

subsection \<open>The handlers without descent\<close>

definition visit_Import :: "pystr list \<Rightarrow> visitor \<Rightarrow> visitor" where
  "visit_Import names self = append_doc (import_line names) self"

definition visit_ImportFrom :: "pystr option \<Rightarrow> pystr list \<Rightarrow> visitor \<Rightarrow> visitor" where
  "visit_ImportFrom module names self = append_doc (import_from_line module names) self"

definition visit_Assign :: "env \<Rightarrow> node list \<Rightarrow> node \<Rightarrow> visitor \<Rightarrow> visitor" where
  "visit_Assign env targets v self =
     append_doc (assignment_line env (indent self) targets v) self"

definition visit_Return :: "env \<Rightarrow> node option \<Rightarrow> visitor \<Rightarrow> visitor" where
  "visit_Return env v self = append_doc (return_line env (indent self) v) self"

subsection \<open>Dispatch and descent\<close>

text \<open>
  \<open>visit\<close> is \<^verbatim>\<open>NodeVisitor.visit\<close>: the handler of the node's kind, or
  \<^verbatim>\<open>generic_visit\<close>, which visits the child nodes of every field in field order.
  The equations for \<open>ClassDef\<close>, \<open>FunctionDef\<close>, \<open>For\<close> and \<open>Call\<close> are the bodies of
  \<^verbatim>\<open>visit_ClassDef\<close>, \<^verbatim>\<open>visit_FunctionDef\<close>, \<^verbatim>\<open>visit_For\<close> and
  \<^verbatim>\<open>visit_Call\<close>. \<open>visit_body_elements\<close> is the loop
  \<^verbatim>\<open>for elem in body: self.visit(elem)\<close>, which is also what
  \<^verbatim>\<open>generic_visit\<close> does on a field holding a list.
\<close>

fun visit :: "env \<Rightarrow> node \<Rightarrow> visitor \<Rightarrow> visitor"
  and visit_body_elements :: "env \<Rightarrow> node list \<Rightarrow> visitor \<Rightarrow> visitor"
where
  "visit env (Import names) self = visit_Import names self"
| "visit env (ImportFrom module names) self = visit_ImportFrom module names self"
| "visit env (ClassDef name lineno body) self =
     (let prefix = indent self;
          docstring = or_else (get_docstring env body) no_class_docstring;
          self = append_doc (class_line prefix name lineno) self;
          self = append_doc (docstring_line prefix docstring) self;
          self = self\<lparr>indent_level := indent_level self + 1\<rparr>;
          self = visit_body_elements env body self
      in self\<lparr>indent_level := indent_level self - 1\<rparr>)"
| "visit env (FunctionDef name lineno args body) self =
     (let prefix = indent self;
          docstring = or_else (get_docstring env body) no_function_docstring;
          self = append_doc (function_line prefix name lineno) self;
          self = append_doc (arguments_line prefix args) self;
          self = append_doc (docstring_line prefix docstring) self;
          self = self\<lparr>indent_level := indent_level self + 1\<rparr>;
          self = visit_body_elements env body self
      in self\<lparr>indent_level := indent_level self - 1\<rparr>)"
| "visit env (Assign targets v) self = visit_Assign env targets v self"
| "visit env (AugAssign target v) self =
     (let self = visit env target self
      in visit env v self)"
| "visit env (AnnAssign target annotation None) self =
     (let self = visit env target self
      in visit env annotation self)"
| "visit env (AnnAssign target annotation (Some v)) self =
     (let self = visit env target self;
          self = visit env annotation self
      in visit env v self)"
| "visit env (For target iter body orelse) self =
     (let prefix = indent self;
          self = append_doc (for_line env prefix target iter) self;
          self = self\<lparr>indent_level := indent_level self + 1\<rparr>;
          self = visit_body_elements env body self
      in self\<lparr>indent_level := indent_level self - 1\<rparr>)"
| "visit env (Call func args keywords) self =
     (let prefix = indent self;
          self = append_doc (call_line env prefix func) self;
          self = visit env func self;
          self = visit_body_elements env args self
      in visit_body_elements env keywords self)"
| "visit env (Return v) self = visit_Return env v self"
| "visit env (While test body orelse) self =
     (let self = visit env test self;
          self = visit_body_elements env body self
      in visit_body_elements env orelse self)"
| "visit env (Expr v) self = visit env v self"
| "visit env (Constant c) self = self"
| "visit env (Name ident) self = self"
| "visit env (Attribute v attr) self = visit env v self"
| "visit env (Other children) self = visit_body_elements env children self"
| "visit_body_elements env [] self = self"
| "visit_body_elements env (elem # body) self =
     visit_body_elements env body (visit env elem self)"

text \<open>\<^verbatim>\<open>visit_Module\<close>: the title, then \<^verbatim>\<open>generic_visit\<close> of the module.\<close>

fun visit_Module :: "env \<Rightarrow> module \<Rightarrow> visitor \<Rightarrow> visitor" where
  "visit_Module env (Module body type_ignores) self =
     (let self = append_doc title_line self;
          self = visit_body_elements env body self
      in visit_body_elements env type_ignores self)"

section \<open>The analysis operation\<close>

text \<open>
  The argument of \<^verbatim>\<open>analyze_code\<close> is \<^verbatim>\<open>None\<close>, an object with a
  \<^verbatim>\<open>read\<close> method (given by what that call does: it raises, or returns bytes),
  or a path.
\<close>

datatype upload = FileObj "error + bytes" | FilePath pystr

definition warning_message :: pystr where
  "warning_message = ''### '' @ [CHR 0xE2, CHR 0x9A, CHR 0xA0, CHR 0xEF, CHR 0xB8, CHR 0x8F]
     @ '' No file uploaded! **Please upload a `.py` file to generate documentation.** ''
     @ [CHR 0xE2, CHR 0x9A, CHR 0xA0, CHR 0xEF, CHR 0xB8, CHR 0x8F]"

definition error_message :: "error \<Rightarrow> pystr" where
  "error_message e = [CHR 0xE2, CHR 0x9D, CHR 0x8C] @ '' Error: '' @ str_error e"

text \<open>
  \<^verbatim>\<open>file.read().decode("utf-8") if hasattr(file, "read") else
  open(file, "r", encoding="utf-8").read()\<close>
\<close>

definition read_source :: "env \<Rightarrow> upload \<Rightarrow> error + pystr" where
  "read_source env file =
     (case file of
        FileObj r \<Rightarrow> (case r of Inl e \<Rightarrow> Inl e | Inr b \<Rightarrow> decode_utf8 env b)
      | FilePath p \<Rightarrow> open_read env p)"

text \<open>The body of the \<^verbatim>\<open>try\<close> statement: \<open>Inl\<close> is the exception raised in it.\<close>

definition try_body :: "env \<Rightarrow> upload \<Rightarrow> error + pystr \<times> pystr" where
  "try_body env file =
     (case read_source env file of
        Inl e \<Rightarrow> Inl e
      | Inr source_code \<Rightarrow>
          (case ast_parse env source_code of
             Inl e \<Rightarrow> Inl e
           | Inr tree \<Rightarrow>
               (let doc_gen = CodeDocGenerator;
                    doc_gen = visit_Module env tree doc_gen
                in Inr (join [newline] (docs doc_gen), source_code))))"

definition analyze_code :: "env \<Rightarrow> upload option \<Rightarrow> pystr \<times> pystr" where
  "analyze_code env file =
     (case file of
        None \<Rightarrow> (warning_message, [])
      | Some f \<Rightarrow>
          (case try_body env f of
             Inl e \<Rightarrow> (error_message e, [])
           | Inr result \<Rightarrow> result))"

section \<open>Observing the output\<close>

text \<open>
  The entries that a visit adds to the list of lines, started at a nesting level, and
  the entries of a whole report. An entry of \<open>docs\<close> is what the specification calls an
  emitted line.
\<close>

definition emitted :: "env \<Rightarrow> node \<Rightarrow> nat \<Rightarrow> pystr list" where
  "emitted env n d = docs (visit env n \<lparr>docs = [], indent_level = int d\<rparr>)"

definition emitted_body :: "env \<Rightarrow> node list \<Rightarrow> nat \<Rightarrow> pystr list" where
  "emitted_body env ns d = docs (visit_body_elements env ns \<lparr>docs = [], indent_level = int d\<rparr>)"

definition report :: "env \<Rightarrow> module \<Rightarrow> pystr list" where
  "report env tree = docs (visit_Module env tree CodeDocGenerator)"

text \<open>The indentation depth of a line: its leading blanks, in units of two.\<close>

definition indent_depth :: "pystr \<Rightarrow> nat" where
  "indent_depth line = length (takeWhile (\<lambda>c. c = blank) line) div 2"

definition prefix_of :: "nat \<Rightarrow> pystr" where
  "prefix_of d = concat (replicate d ''  '')"



text \<open>\<open>b\<close> is the entry right after an entry \<open>a\<close>.\<close>

definition immediately_after :: "'a \<Rightarrow> 'a \<Rightarrow> 'a list \<Rightarrow> bool" where
  "immediately_after a b xs = ((a, b) \<in> set (zip xs (tl xs)))"

subsection \<open>Nesting counts\<close>

text \<open>
  The nesting count of every emitted line, in traversal order, with the depth passed
  down explicitly. \<open>loop_nesting\<close> counts the bodies of classes, functions and loops,
  a \<^verbatim>\<open>while\<close> loop being a loop; \<open>handled_nesting\<close> counts the bodies of classes,
  functions and \<^verbatim>\<open>for\<close> loops only. In both, an import line is at depth 0.
\<close>

fun loop_nesting :: "nat \<Rightarrow> node \<Rightarrow> nat list"
  and loop_nesting_list :: "nat \<Rightarrow> node list \<Rightarrow> nat list"
where
  "loop_nesting d (Import names) = [0]"
| "loop_nesting d (ImportFrom module names) = [0]"
| "loop_nesting d (ClassDef name lineno body) = [d, d] @ loop_nesting_list (Suc d) body"
| "loop_nesting d (FunctionDef name lineno args body) =
     [d, d, d] @ loop_nesting_list (Suc d) body"
| "loop_nesting d (Assign targets v) = [d]"
| "loop_nesting d (AugAssign target v) = loop_nesting d target @ loop_nesting d v"
| "loop_nesting d (AnnAssign target annotation None) =
     loop_nesting d target @ loop_nesting d annotation"
| "loop_nesting d (AnnAssign target annotation (Some v)) =
     loop_nesting d target @ loop_nesting d annotation @ loop_nesting d v"
| "loop_nesting d (For target iter body orelse) = d # loop_nesting_list (Suc d) body"
| "loop_nesting d (Call func args keywords) =
     d # loop_nesting d func @ loop_nesting_list d args @ loop_nesting_list d keywords"
| "loop_nesting d (Return v) = [d]"
| "loop_nesting d (While test body orelse) =
     loop_nesting d test @ loop_nesting_list (Suc d) body @ loop_nesting_list d orelse"
| "loop_nesting d (Expr v) = loop_nesting d v"
| "loop_nesting d (Constant c) = []"
| "loop_nesting d (Name ident) = []"
| "loop_nesting d (Attribute v attr) = loop_nesting d v"
| "loop_nesting d (Other children) = loop_nesting_list d children"
| "loop_nesting_list d [] = []"
| "loop_nesting_list d (n # ns) = loop_nesting d n @ loop_nesting_list d ns"

fun handled_nesting :: "nat \<Rightarrow> node \<Rightarrow> nat list"
  and handled_nesting_list :: "nat \<Rightarrow> node list \<Rightarrow> nat list"
where
  "handled_nesting d (Import names) = [0]"
| "handled_nesting d (ImportFrom module names) = [0]"
| "handled_nesting d (ClassDef name lineno body) =
     [d, d] @ handled_nesting_list (Suc d) body"
| "handled_nesting d (FunctionDef name lineno args body) =
     [d, d, d] @ handled_nesting_list (Suc d) body"
| "handled_nesting d (Assign targets v) = [d]"
| "handled_nesting d (AugAssign target v) = handled_nesting d target @ handled_nesting d v"
| "handled_nesting d (AnnAssign target annotation None) =
     handled_nesting d target @ handled_nesting d annotation"
| "handled_nesting d (AnnAssign target annotation (Some v)) =
     handled_nesting d target @ handled_nesting d annotation @ handled_nesting d v"
| "handled_nesting d (For target iter body orelse) = d # handled_nesting_list (Suc d) body"
| "handled_nesting d (Call func args keywords) =
     d # handled_nesting d func @ handled_nesting_list d args
       @ handled_nesting_list d keywords"
| "handled_nesting d (Return v) = [d]"
| "handled_nesting d (While test body orelse) =
     handled_nesting d test @ handled_nesting_list d body @ handled_nesting_list d orelse"
| "handled_nesting d (Expr v) = handled_nesting d v"
| "handled_nesting d (Constant c) = []"
| "handled_nesting d (Name ident) = []"
| "handled_nesting d (Attribute v attr) = handled_nesting d v"
| "handled_nesting d (Other children) = handled_nesting_list d children"
| "handled_nesting_list d [] = []"
| "handled_nesting_list d (n # ns) = handled_nesting d n @ handled_nesting_list d ns"

fun loop_nesting_module :: "module \<Rightarrow> nat list" where
  "loop_nesting_module (Module body type_ignores) =
     0 # loop_nesting_list 0 body @ loop_nesting_list 0 type_ignores"

fun handled_nesting_module :: "module \<Rightarrow> nat list" where
  "handled_nesting_module (Module body type_ignores) =
     0 # handled_nesting_list 0 body @ handled_nesting_list 0 type_ignores"

subsection \<open>The lines of a visit in closed form\<close>

text \<open>
  What a visit appends, with the level passed down as an argument instead of being
  kept in the visitor.
\<close>

definition prefix_at :: "int \<Rightarrow> pystr" where
  "prefix_at l = concat (replicate (nat l) ''  '')"

fun lines_of :: "env \<Rightarrow> int \<Rightarrow> node \<Rightarrow> pystr list"
  and lines_of_list :: "env \<Rightarrow> int \<Rightarrow> node list \<Rightarrow> pystr list"
where
  "lines_of env l (Import names) = [import_line names]"
| "lines_of env l (ImportFrom module names) = [import_from_line module names]"
| "lines_of env l (ClassDef name lineno body) =
     [class_line (prefix_at l) name lineno,
      docstring_line (prefix_at l) (or_else (get_docstring env body) no_class_docstring)]
     @ lines_of_list env (l + 1) body"
| "lines_of env l (FunctionDef name lineno args body) =
     [function_line (prefix_at l) name lineno,
      arguments_line (prefix_at l) args,
      docstring_line (prefix_at l) (or_else (get_docstring env body) no_function_docstring)]
     @ lines_of_list env (l + 1) body"
| "lines_of env l (Assign targets v) = [assignment_line env (prefix_at l) targets v]"
| "lines_of env l (AugAssign target v) = lines_of env l target @ lines_of env l v"
| "lines_of env l (AnnAssign target annotation None) =
     lines_of env l target @ lines_of env l annotation"
| "lines_of env l (AnnAssign target annotation (Some v)) =
     lines_of env l target @ lines_of env l annotation @ lines_of env l v"
| "lines_of env l (For target iter body orelse) =
     for_line env (prefix_at l) target iter # lines_of_list env (l + 1) body"
| "lines_of env l (Call func args keywords) =
     call_line env (prefix_at l) func # lines_of env l func
       @ lines_of_list env l args @ lines_of_list env l keywords"
| "lines_of env l (Return v) = [return_line env (prefix_at l) v]"
| "lines_of env l (While test body orelse) =
     lines_of env l test @ lines_of_list env l body @ lines_of_list env l orelse"
| "lines_of env l (Expr v) = lines_of env l v"
| "lines_of env l (Constant c) = []"
| "lines_of env l (Name ident) = []"
| "lines_of env l (Attribute v attr) = lines_of env l v"
| "lines_of env l (Other children) = lines_of_list env l children"
| "lines_of_list env l [] = []"
| "lines_of_list env l (n # ns) = lines_of env l n @ lines_of_list env l ns"

section \<open>An environment for the examples\<close>

text \<open>
  \<^verbatim>\<open>inspect.cleandoc\<close>, which \<^verbatim>\<open>ast.get_docstring\<close> applies: tabs expanded,
  the first line stripped on the left, the common margin of the later lines removed,
  blank lines dropped at both ends. White space is ASCII white space here.
\<close>

definition isspace :: "char \<Rightarrow> bool" where
  "isspace c = (c \<in> set [CHR 0x09, CHR 0x0A, CHR 0x0B, CHR 0x0C, CHR 0x0D,
                         CHR 0x1C, CHR 0x1D, CHR 0x1E, CHR 0x1F, CHR 0x20])"

definition lstrip :: "pystr \<Rightarrow> pystr" where
  "lstrip s = dropWhile isspace s"

fun expandtabs :: "nat \<Rightarrow> pystr \<Rightarrow> pystr" where
  "expandtabs col [] = []"
| "expandtabs col (c # cs) =
     (if c = CHR 0x09
      then replicate (8 - col mod 8) blank @ expandtabs (col + (8 - col mod 8)) cs
      else c # expandtabs (if c = CHR 0x0A \<or> c = CHR 0x0D then 0 else col + 1) cs)"

fun split_newline :: "pystr \<Rightarrow> pystr list" where
  "split_newline [] = [[]]"
| "split_newline (c # cs) =
     (if c = newline then [] # split_newline cs
      else (case split_newline cs of
              [] \<Rightarrow> [[c]]
            | line # lines \<Rightarrow> (c # line) # lines))"

fun margin_of :: "pystr list \<Rightarrow> nat option" where
  "margin_of [] = None"
| "margin_of (line # lines) =
     (if lstrip line = [] then margin_of lines
      else (case margin_of lines of
              None \<Rightarrow> Some (length line - length (lstrip line))
            | Some m \<Rightarrow> Some (min m (length line - length (lstrip line)))))"

definition inspect_cleandoc :: "pystr \<Rightarrow> pystr" where
  "inspect_cleandoc doc =
     (case split_newline (expandtabs 0 doc) of
        [] \<Rightarrow> []
      | first # rest \<Rightarrow>
          (let rest = (case margin_of rest of None \<Rightarrow> rest | Some m \<Rightarrow> map (drop m) rest);
               lines = lstrip first # rest;
               lines = rev (dropWhile (\<lambda>l. l = []) (rev lines));
               lines = dropWhile (\<lambda>l. l = []) lines
           in join [newline] lines))"

text \<open>
  \<^verbatim>\<open>ast.unparse\<close> on names, integer literals from 0, attributes of names and calls
  with positional arguments; the examples use no other expression.
\<close>

fun unparse_fragment :: "node \<Rightarrow> pystr" where
  "unparse_fragment (Name ident) = ident"
| "unparse_fragment (Constant (IntC i)) = str_nat (nat i)"
| "unparse_fragment (Attribute v attr) = unparse_fragment v @ ''.'' @ attr"
| "unparse_fragment (Call func args keywords) =
     unparse_fragment func @ ''('' @ join '', '' (map unparse_fragment args) @ '')''"
| "unparse_fragment n = ''...''"

text \<open>
  \<^verbatim>\<open>bytes.decode("utf-8")\<close>: the bytes themselves when they are well-formed UTF-8.
  The scanner carries the number of continuation bytes still due and the range allowed
  for the next one. The description of the error is shortened.
\<close>

fun utf8_scan :: "nat \<Rightarrow> nat \<Rightarrow> nat \<Rightarrow> nat list \<Rightarrow> bool" where
  "utf8_scan 0 lo hi [] = True"
| "utf8_scan (Suc k) lo hi [] = False"
| "utf8_scan 0 lo hi (b # bs) =
     (if b < 0x80 then utf8_scan 0 0x80 0xBF bs
      else if 0xC2 \<le> b \<and> b \<le> 0xDF then utf8_scan 1 0x80 0xBF bs
      else if b = 0xE0 then utf8_scan 2 0xA0 0xBF bs
      else if b = 0xED then utf8_scan 2 0x80 0x9F bs
      else if 0xE1 \<le> b \<and> b \<le> 0xEF then utf8_scan 2 0x80 0xBF bs
      else if b = 0xF0 then utf8_scan 3 0x90 0xBF bs
      else if 0xF1 \<le> b \<and> b \<le> 0xF3 then utf8_scan 3 0x80 0xBF bs
      else if b = 0xF4 then utf8_scan 3 0x80 0x8F bs
      else False)"
| "utf8_scan (Suc k) lo hi (b # bs) =
     (if lo \<le> b \<and> b \<le> hi then utf8_scan k 0x80 0xBF bs else False)"

definition bytes_decode :: "bytes \<Rightarrow> error + pystr" where
  "bytes_decode b =
     (if utf8_scan 0 0x80 0xBF (map of_char b) then Inr b
      else Inl (UnicodeDecodeError ''invalid utf-8''))"

text \<open>
  A file system with three files, two of them with the same bytes, and \<^verbatim>\<open>ast.parse\<close> on the text of these files;
  every other text stands for one that does not parse.
\<close>

definition example_files :: "pystr \<Rightarrow> error + bytes" where
  "example_files path =
     (if path = ''a.py'' \<or> path = ''copy.py'' then Inr ''import os''
      else if path = ''crlf.py'' then Inr (''import os'' @ [CHR 0x0D, CHR 0x0A])
      else Inl (OSError (''[Errno 2] No such file or directory: '' @ [CHR 0x27] @ path
             @ [CHR 0x27])))"

definition example_parse :: "pystr \<Rightarrow> error + module" where
  "example_parse source_code =
     (if source_code = ''import os'' \<or> source_code = ''import os'' @ [CHR 0x0A]
      then Inr (Module [Import [''os'']] [])
      else Inl (SyntaxError ''invalid syntax (<unknown>, line 1)''))"

definition example_env :: env where
  "example_env = \<lparr>ast_unparse = Some unparse_fragment, cleandoc = inspect_cleandoc,
     decode_utf8 = bytes_decode, file_bytes = example_files, ast_parse = example_parse\<rparr>"


section \<open>The visitor in closed form\<close>

lemma visit_lines:
  "visit env n self = self\<lparr>docs := docs self @ lines_of env (indent_level self) n\<rparr>"
  "visit_body_elements env ns self =
     self\<lparr>docs := docs self @ lines_of_list env (indent_level self) ns\<rparr>"
  by (induction env n self and env ns self rule: visit_visit_body_elements.induct)
     (simp_all add: Let_def append_doc_def indent_def prefix_at_def visit_Import_def
        visit_ImportFrom_def visit_Assign_def visit_Return_def)

lemma emitted_lines: "emitted env n d = lines_of env (int d) n"
  by (simp add: emitted_def visit_lines)

lemma emitted_body_lines: "emitted_body env ns d = lines_of_list env (int d) ns"
  by (simp add: emitted_body_def visit_lines)

lemma report_lines:
  "report env (Module body type_ignores) =
     title_line # lines_of_list env 0 body @ lines_of_list env 0 type_ignores"
  by (simp add: report_def CodeDocGenerator_def Let_def append_doc_def visit_lines)

lemma prefix_at_int: "prefix_at (int d) = prefix_of d"
  by (simp add: prefix_at_def prefix_of_def)

lemma prefix_of_replicate: "prefix_of d = replicate (2 * d) blank"
  by (induction d) (simp_all add: prefix_of_def blank_def)

lemma lines_of_list_append:
  "lines_of_list env l (xs @ ys) = lines_of_list env l xs @ lines_of_list env l ys"
  by (induction xs) simp_all

section \<open>Indentation\<close>

lemma takeWhile_replicate_same:
  "c \<noteq> b \<Longrightarrow> takeWhile (\<lambda>x. x = b) (replicate n b @ c # cs) = replicate n b"
  by (induction n) simp_all


lemma indent_depth_prefix:
  "c \<noteq> blank \<Longrightarrow> indent_depth (prefix_of d @ c # cs) = d"
  by (simp add: indent_depth_def prefix_of_replicate takeWhile_replicate_same)


lemma indent_depth_lines:
  "indent_depth (class_line (prefix_of d) name lineno) = d"
  "indent_depth (docstring_line (prefix_of d) doc) = d"
  "indent_depth (function_line (prefix_of d) name lineno) = d"
  "indent_depth (arguments_line (prefix_of d) args) = d"
  "indent_depth (assignment_line env (prefix_of d) targets v) = d"
  "indent_depth (for_line env (prefix_of d) target iter) = d"
  "indent_depth (call_line env (prefix_of d) func) = d"
  "indent_depth (return_line env (prefix_of d) r) = d"
  by (simp_all add: class_line_def docstring_line_def function_line_def arguments_line_def
        assignment_line_def for_line_def call_line_def return_line_def
        class_tag_def docstring_tag_def function_tag_def arguments_tag_def
        assignment_tag_def for_tag_def call_tag_def return_tag_def
        indent_depth_prefix blank_def)

lemma indent_depth_unindented:
  "indent_depth (import_line names) = 0"
  "indent_depth (import_from_line module names) = 0"
  "indent_depth title_line = 0"
  by (simp_all add: indent_depth_def import_line_def import_from_line_def import_tag_def
        title_line_def blank_def)

lemma indent_depth_lines_of:
  "map indent_depth (lines_of env (int d) n) = handled_nesting d n"
  "map indent_depth (lines_of_list env (int d) ns) = handled_nesting_list d ns"
  by (induction d n and d ns rule: handled_nesting_handled_nesting_list.induct)
     (simp_all add: prefix_at_int indent_depth_lines indent_depth_unindented add.commute)

lemma indent_depth_report:
  "map indent_depth (report env tree) = handled_nesting_module tree"
proof (cases tree)
  case (Module body type_ignores)
  have "map indent_depth (lines_of_list env 0 body) = handled_nesting_list 0 body"
    using indent_depth_lines_of(2) [of env 0 body] by simp
  moreover have "map indent_depth (lines_of_list env 0 type_ignores)
      = handled_nesting_list 0 type_ignores"
    using indent_depth_lines_of(2) [of env 0 type_ignores] by simp
  ultimately show ?thesis
    using Module by (simp add: report_lines indent_depth_unindented)
qed

text \<open>
  C1, as the code has it. The indentation depth of every emitted line, in traversal
  order, is the number of enclosing bodies of classes, of functions defined with
  \<^verbatim>\<open>def\<close> and of \<^verbatim>\<open>for\<close> loops, 0 at top level; the title and every
  import line are at depth 0 wherever they occur. A body reached through a node
  without a handler, such as a \<^verbatim>\<open>while\<close> loop, adds nothing to the depth.
\<close>

theorem indentation_is_handled_nesting:
  "map indent_depth (report env tree) = handled_nesting_module tree"
  by (rule indent_depth_report)

text \<open>
  C1 as stated fails on \<^verbatim>\<open>while c:\<close> followed by \<^verbatim>\<open>x = 1\<close> in its body:
  the assignment line is inside one loop body and is emitted at depth 0.
\<close>

theorem while_body_not_indented:
  "map indent_depth (report example_env
      (Module [While (Name ''c'') [Assign [Name ''x''] (Constant (IntC 1))] []] []))
     = [0, 0]
   \<and> loop_nesting_module
      (Module [While (Name ''c'') [Assign [Name ''x''] (Constant (IntC 1))] []] [])
     = [0, 1]
   \<and> map indent_depth (report example_env
      (Module [While (Name ''c'') [Assign [Name ''x''] (Constant (IntC 1))] []] []))
     \<noteq> loop_nesting_module
      (Module [While (Name ''c'') [Assign [Name ''x''] (Constant (IntC 1))] []] [])"
  by (simp add: indent_depth_report)

text \<open>
  C8. The indentation counter obeys stack discipline: after the visit of a node with
  all its children, of a list of nodes, or of the module, the level is what it was
  before.
\<close>

theorem indent_level_restored:
  "indent_level (visit env n self) = indent_level self
   \<and> indent_level (visit_body_elements env ns self) = indent_level self
   \<and> indent_level (visit_Module env tree self) = indent_level self"
  by (cases tree) (simp add: visit_lines Let_def append_doc_def)

section \<open>The title\<close>






section \<open>Docstrings\<close>





section \<open>Statements that do not descend\<close>




section \<open>Calls\<close>

text \<open>
  C4, as the code has it. A call that the traversal reaches emits its line and then
  the lines of its callee, its arguments and its keyword values, in this order. So a
  call \<open>g\<close> that is an argument of a call \<open>f\<close> in an expression statement emits its
  line after the line of \<open>f\<close> and before the lines of the sibling statements; between
  the two lines are the lines of the callee of \<open>f\<close> and of the arguments before \<open>g\<close>.
  The line of \<open>g\<close> comes right after the line of \<open>f\<close> when the callee is a plain name
  and \<open>g\<close> is the first argument.
\<close>

theorem call_descends_in_order:
  "emitted env (Call func args keywords) d =
     call_line env (prefix_of d) func
       # emitted env func d @ emitted_body env args d @ emitted_body env keywords d
   \<and> emitted_body env
       (Expr (Call f (before @ Call g gargs gkeywords # after) fkeywords) # siblings) d =
     call_line env (prefix_of d) f
       # (emitted env f d @ emitted_body env before d)
       @ call_line env (prefix_of d) g
       # (emitted env g d @ emitted_body env gargs d @ emitted_body env gkeywords d)
       @ emitted_body env after d @ emitted_body env fkeywords d
       @ emitted_body env siblings d
   \<and> emitted_body env
       (Expr (Call (Name ident) (Call g gargs gkeywords # after) fkeywords) # siblings) d =
     call_line env (prefix_of d) (Name ident)
       # call_line env (prefix_of d) g
       # (emitted env g d @ emitted_body env gargs d @ emitted_body env gkeywords d)
       @ emitted_body env after d @ emitted_body env fkeywords d
       @ emitted_body env siblings d"
  by (simp add: emitted_lines emitted_body_lines prefix_at_int lines_of_list_append)

text \<open>
  C4 as stated fails on the statement \<^verbatim>\<open>f(a(), g())\<close>: the line of \<open>g\<close>, a call
  nested as an argument of the call of \<open>f\<close>, does not come right after the line of
  \<open>f\<close>; the line of \<open>a\<close> is between them.
\<close>

theorem second_argument_call_not_adjacent:
  "report example_env
     (Module [Expr (Call (Name ''f'') [Call (Name ''a'') [] [], Call (Name ''g'') [] []] [])] [])
   = [title_line, call_line example_env [] (Name ''f''), call_line example_env [] (Name ''a''),
      call_line example_env [] (Name ''g'')]
   \<and> \<not> immediately_after (call_line example_env [] (Name ''f''))
         (call_line example_env [] (Name ''g''))
         (report example_env
           (Module [Expr (Call (Name ''f'') [Call (Name ''a'') [] [], Call (Name ''g'') [] []] [])] []))"
  by (simp add: report_lines prefix_at_def immediately_after_def call_line_def call_tag_def
        title_line_def)

section \<open>While loops\<close>

text \<open>
  C9, as the code has it. A \<^verbatim>\<open>while\<close> loop that the traversal reaches emits no
  line of its own: what it emits are the lines of its test, of its body statements and
  of its else statements, at the level of the loop itself. In a list of statements the loop can be
  replaced by its test, body and else statements without changing the visit. A
  \<^verbatim>\<open>for\<close> loop, in contrast, emits a loop line and its body one level deeper.
\<close>

theorem while_is_transparent:
  "emitted env (While test body orelse) d =
     emitted env test d @ emitted_body env body d @ emitted_body env orelse d
   \<and> visit_body_elements env (before @ While test body orelse # after) self =
     visit_body_elements env (before @ test # body @ orelse @ after) self
   \<and> emitted env (For target iter body orelse) d =
     for_line env (prefix_of d) target iter # emitted_body env body (Suc d)"
  by (simp add: emitted_lines emitted_body_lines visit_lines lines_of_list_append
        prefix_at_int add.commute)

text \<open>
  C9 as stated fails on a \<^verbatim>\<open>while\<close> loop in the else clause of a \<^verbatim>\<open>for\<close>
  loop, here \<^verbatim>\<open>for i in xs: pass\<close> with \<^verbatim>\<open>else: while c: y = 1\<close>
  (\<open>Other []\<close> is the pass statement): the handler of the \<^verbatim>\<open>for\<close> loop visits
  the body only, so the statements of the \<^verbatim>\<open>while\<close> body are not visited and
  emit no line.
\<close>

theorem while_in_for_else_not_visited:
  "report example_env
     (Module [For (Name ''i'') (Name ''xs'') [Other []]
                [While (Name ''c'') [Assign [Name ''y''] (Constant (IntC 1))] []]] [])
     = [title_line, for_line example_env [] (Name ''i'') (Name ''xs'')]
   \<and> emitted example_env (While (Name ''c'') [Assign [Name ''y''] (Constant (IntC 1))] []) 0
     = [assignment_line example_env [] [Name ''y''] (Constant (IntC 1))]
   \<and> assignment_line example_env [] [Name ''y''] (Constant (IntC 1))
     \<notin> set (report example_env
         (Module [For (Name ''i'') (Name ''xs'') [Other []]
                    [While (Name ''c'') [Assign [Name ''y''] (Constant (IntC 1))] []]] []))"
  by (simp add: report_lines emitted_lines prefix_at_def title_line_def for_line_def
        assignment_line_def for_tag_def assignment_tag_def)

section \<open>The analysis\<close>

text \<open>
  C5. When reading the input, decoding it or parsing it fails, the analysis returns the
  error mark, \<open>Error:\<close> and the description of the failure as its first element and
  the empty string as its second. The result of the analysis is a pair in every case:
  the exception does not leave the operation.
\<close>

theorem failure_gives_error_pair:
  assumes "read_source env f = Inl e
     \<or> (\<exists>source_code. read_source env f = Inr source_code \<and> ast_parse env source_code = Inl e)"
  shows "analyze_code env (Some f)
     = ([CHR 0xE2, CHR 0x9D, CHR 0x8C] @ '' Error: '' @ str_error e, [])"
  using assms by (auto simp add: analyze_code_def try_body_def error_message_def)

lemma example_missing_file:
  "read_source example_env (FilePath ''b.py'')
     = Inl (OSError (''[Errno 2] No such file or directory: '' @ [CHR 0x27] @ ''b.py'' @ [CHR 0x27]))"
  by (simp add: read_source_def open_read_def example_env_def example_files_def)

lemma example_bad_bytes:
  "read_source example_env (FileObj (Inr [CHR 0xFF])) = Inl (UnicodeDecodeError ''invalid utf-8'')"
  by (simp add: read_source_def example_env_def bytes_decode_def)

lemma example_bad_syntax:
  "read_source example_env (FileObj (Inr ''x = ('')) = Inr ''x = (''"
  "ast_parse example_env ''x = ('' = Inl (SyntaxError ''invalid syntax (<unknown>, line 1)'')"
  by (simp_all add: read_source_def example_env_def bytes_decode_def example_parse_def)

text \<open>
  The three failures: a path without a file, bytes that are not UTF-8, a text that
  does not parse.
\<close>

theorem failure_gives_error_pair_witness:
  "analyze_code example_env (Some (FilePath ''b.py''))
     = ([CHR 0xE2, CHR 0x9D, CHR 0x8C]
          @ '' Error: [Errno 2] No such file or directory: '' @ [CHR 0x27] @ ''b.py'' @ [CHR 0x27], [])
   \<and> analyze_code example_env (Some (FileObj (Inr [CHR 0xFF])))
     = ([CHR 0xE2, CHR 0x9D, CHR 0x8C] @ '' Error: invalid utf-8'', [])
   \<and> analyze_code example_env (Some (FileObj (Inr ''x = ('')))
     = ([CHR 0xE2, CHR 0x9D, CHR 0x8C] @ '' Error: invalid syntax (<unknown>, line 1)'', [])"
  using failure_gives_error_pair [of example_env "FilePath ''b.py''", OF disjI1,
          OF example_missing_file]
    failure_gives_error_pair [of example_env "FileObj (Inr [CHR 0xFF])", OF disjI1,
          OF example_bad_bytes]
    failure_gives_error_pair [of example_env "FileObj (Inr ''x = ('')", OF disjI2, OF exI,
          OF conjI, OF example_bad_syntax]
  by simp








end
